theory Spec2Isabelle
  imports Main "HOL-Library.AList" "HOL-Library.Sublist" "HOL-Library.Multiset"
    "HOL-Library.Char_ord" "HOL-Library.List_Lexorder"
begin

section \<open>Data model\<close>

text \<open>
  The plugin is Go code over \<^verbatim>\<open>net/http\<close>, \<^verbatim>\<open>net/url\<close>, \<^verbatim>\<open>text/template\<close> and
  \<^verbatim>\<open>encoding/json\<close>. Byte slices and Go strings are \<open>string\<close> (lists of bytes). A Go
  map is an association list with distinct keys; the order of the list is the order in
  which a \<^verbatim>\<open>range\<close> loop visits the map, so a statement for every list is a statement
  for every iteration order.
\<close>

type_synonym bytes = string

text \<open>\<^verbatim>\<open>http.Header\<close> and \<^verbatim>\<open>url.Values\<close>: \<^verbatim>\<open>map[string][]string\<close>.\<close>

type_synonym Header = "(string \<times> string list) list"
type_synonym Values = "(string \<times> string list) list"

text \<open>
  The data a template is executed on (\<^verbatim>\<open>map[string]interface{}\<close> trees). \<open>TJson\<close> holds
  a value decoded by \<^verbatim>\<open>json.Unmarshal\<close>, of a type \<open>'j\<close> the model leaves open.
\<close>

datatype 'j tval =
    TNil
  | TStr string
  | TInt int
  | TStrs "string list"
  | TMap "(string \<times> 'j tval) list"
  | TJson 'j

type_synonym 'j TemplateContext = "(string \<times> 'j tval) list"

text \<open>
  The functions of the Go standard library the plugin calls. They are not code of this
  repository, so the model takes them as parameters:
  \<^item> \<open>tmpl_parse fs s\<close> is \<^verbatim>\<open>template.New(..).Funcs(..).Delims("[[", "]]").Parse(s)\<close>, with
    \<open>fs\<close> the names bound by \<^verbatim>\<open>Funcs\<close> (empty when \<^verbatim>\<open>Funcs\<close> is not called); \<open>None\<close> is
    a parse error;
  \<^item> \<open>tmpl_execute t d\<close> is \<^verbatim>\<open>t.Execute(&buf, d)\<close>: the rendered bytes, \<open>None\<close> on error;
  \<^item> \<open>json_unmarshal\<close>, \<open>json_marshal\<close> are \<^verbatim>\<open>json.Unmarshal\<close> into an
    \<^verbatim>\<open>interface{}\<close> and \<^verbatim>\<open>json.Marshal\<close>; \<open>None\<close> is an error;
  \<^item> \<open>canonical_key\<close> is \<^verbatim>\<open>textproto.CanonicalMIMEHeaderKey\<close>, \<open>equal_fold\<close> is
    \<^verbatim>\<open>strings.EqualFold\<close>, \<open>to_lower\<close> is \<^verbatim>\<open>strings.ToLower\<close>, \<open>trim_space\<close> is
    \<^verbatim>\<open>strings.TrimSpace\<close>;
  \<^item> \<open>parse_query\<close> is what \<^verbatim>\<open>URL.Query()\<close> makes of a raw query, \<open>query_escape\<close> is
    \<^verbatim>\<open>url.QueryEscape\<close>;
  \<^item> \<open>url_string\<close> and \<open>url_request_uri\<close> are \<^verbatim>\<open>URL.String()\<close> and
    \<^verbatim>\<open>URL.RequestURI()\<close>, as functions of the path and the raw query.
\<close>

record ('t, 'j) golib =
  tmpl_parse :: "string list \<Rightarrow> string \<Rightarrow> 't option"
  tmpl_execute :: "'t \<Rightarrow> 'j tval \<Rightarrow> bytes option"
  json_unmarshal :: "bytes \<Rightarrow> 'j option"
  json_marshal :: "'j \<Rightarrow> bytes option"
  canonical_key :: "string \<Rightarrow> string"
  equal_fold :: "string \<Rightarrow> string \<Rightarrow> bool"
  to_lower :: "string \<Rightarrow> string"
  trim_space :: "string \<Rightarrow> string"
  parse_query :: "string \<Rightarrow> Values"
  query_escape :: "string \<Rightarrow> string"
  url_string :: "string \<Rightarrow> string \<Rightarrow> string"
  url_request_uri :: "string \<Rightarrow> string \<Rightarrow> string"

text \<open>The request: the fields of \<^verbatim>\<open>http.Request\<close> the plugin reads or writes.\<close>

datatype ReqBody = NilBody | BrokenBody | Body bytes

record URL =
  Path :: string
  RawQuery :: string

record Request =
  Method :: string
  Url :: URL
  RequestURI :: string
  Hdr :: Header
  ReqBody :: ReqBody
  ContentLength :: int

section \<open>pkg/simplefunc.go\<close>

text \<open>The names \<^verbatim>\<open>SimpleFuncMap\<close> binds.\<close>

definition SimpleFuncMap :: "string list" where
  "SimpleFuncMap = [''toJSON'', ''toMap'', ''default'', ''now'', ''unixEpoch'',
     ''randAlphaNum'', ''upper'', ''date'', ''debug'']"

section \<open>Library operations with a fixed meaning\<close>

text \<open>
  \<^verbatim>\<open>bytes.ReplaceAll\<close> / \<^verbatim>\<open>strings.ReplaceAll\<close> for a non-empty \<open>old\<close>: the
  non-overlapping occurrences of \<open>old\<close>, found from the left, are replaced by \<open>new\<close>.
  (The plugin only calls it with a non-empty constant; for an empty \<open>old\<close> the model
  returns the input.)
\<close>

function ReplaceAll :: "string \<Rightarrow> string \<Rightarrow> string \<Rightarrow> string" where
  "ReplaceAll [] old new = []"
| "ReplaceAll (c # cs) old new =
     (if old \<noteq> [] \<and> prefix old (c # cs)
      then new @ ReplaceAll (drop (length old) (c # cs)) old new
      else c # ReplaceAll cs old new)"
  by pat_completeness auto
termination
  by (relation "measure (\<lambda>(s, old, new). length s)") (auto simp: neq_Nil_conv)

text \<open>\<^verbatim>\<open>strings.Contains\<close>.\<close>

fun Contains :: "string \<Rightarrow> string \<Rightarrow> bool" where
  "Contains [] sub = (sub = [])"
| "Contains (c # cs) sub = (prefix sub (c # cs) \<or> Contains cs sub)"

text \<open>\<^verbatim>\<open>strconv.Itoa\<close> of a length.\<close>

definition digit :: "nat \<Rightarrow> char" where
  "digit d = char_of (48 + d)"

function Itoa :: "nat \<Rightarrow> string" where
  "Itoa n = (if n < 10 then [digit n] else Itoa (n div 10) @ [digit (n mod 10)])"
  by pat_completeness auto
termination
  by (relation "measure id") auto

text \<open>The two spellings of the missing-value placeholder.\<close>

definition no_value :: string where
  "no_value = ''<no value>''"

definition quoted_no_value :: string where
  "quoted_no_value = [CHR 0x22] @ ''<no value>'' @ [CHR 0x22]"

definition empty_json_string :: string where
  "empty_json_string = [CHR 0x22, CHR 0x22]"

text \<open>\<^verbatim>\<open>map[string][]string\<close> operations of \<^verbatim>\<open>http.Header\<close>.\<close>

definition lookup_vals :: "(string \<times> string list) list \<Rightarrow> string \<Rightarrow> string list" where
  "lookup_vals m k = (case map_of m k of None \<Rightarrow> [] | Some vs \<Rightarrow> vs)"

definition Header_Values :: "('t, 'j) golib \<Rightarrow> Header \<Rightarrow> string \<Rightarrow> string list" where
  "Header_Values L h k = lookup_vals h (canonical_key L k)"

definition Header_Get :: "('t, 'j) golib \<Rightarrow> Header \<Rightarrow> string \<Rightarrow> string" where
  "Header_Get L h k = (case Header_Values L h k of [] \<Rightarrow> [] | v # _ \<Rightarrow> v)"

definition Header_Set :: "('t, 'j) golib \<Rightarrow> Header \<Rightarrow> string \<Rightarrow> string \<Rightarrow> Header" where
  "Header_Set L h k v = AList.update (canonical_key L k) [v] h"

definition Header_Add :: "('t, 'j) golib \<Rightarrow> Header \<Rightarrow> string \<Rightarrow> string \<Rightarrow> Header" where
  "Header_Add L h k v =
     AList.update (canonical_key L k) (lookup_vals h (canonical_key L k) @ [v]) h"

definition Header_Del :: "('t, 'j) golib \<Rightarrow> Header \<Rightarrow> string \<Rightarrow> Header" where
  "Header_Del L h k = AList.delete (canonical_key L k) h"

text \<open>\<^verbatim>\<open>url.Values\<close>: keys are used as they are.\<close>

definition Values_Has :: "Values \<Rightarrow> string \<Rightarrow> bool" where
  "Values_Has v k = (map_of v k \<noteq> None)"

definition Values_Set :: "Values \<Rightarrow> string \<Rightarrow> string \<Rightarrow> Values" where
  "Values_Set v k x = AList.update k [x] v"

definition Values_Add :: "Values \<Rightarrow> string \<Rightarrow> string \<Rightarrow> Values" where
  "Values_Add v k x = AList.update k (lookup_vals v k @ [x]) v"

text \<open>
  \<^verbatim>\<open>Values.Encode\<close>: the keys sorted, every value of a key as \<open>key=value\<close> (both
  escaped), the pairs joined by \<open>&\<close>.
\<close>

fun join_amp :: "string list \<Rightarrow> string" where
  "join_amp [] = []"
| "join_amp [x] = x"
| "join_amp (x # y # ys) = x @ ''&'' @ join_amp (y # ys)"

definition encode_key :: "('t, 'j) golib \<Rightarrow> Values \<Rightarrow> string \<Rightarrow> string list" where
  "encode_key L v k =
     map (\<lambda>x. query_escape L k @ ''='' @ query_escape L x) (lookup_vals v k)"

definition sorted_keys :: "Values \<Rightarrow> string list" where
  "sorted_keys v = sort (map fst v)"

definition Values_Encode :: "('t, 'j) golib \<Rightarrow> Values \<Rightarrow> string" where
  "Values_Encode L v = join_amp (concat (map (encode_key L v) (sorted_keys v)))"

section \<open>Header modifier\<close>

text \<open>
  \<^verbatim>\<open>HeaderModifier\<close>: the compiled templates and their texts, both keyed by header name.
\<close>

record 't HeaderModifier =
  templates :: "(string \<times> 't) list"
  templateStrings :: "(string \<times> string) list"

text \<open>
  \<^verbatim>\<open>NewHeaderModifier\<close>: every non-empty template text is parsed, with the delimiters set
  and without \<^verbatim>\<open>Funcs\<close>; a text that does not parse is logged and left out. The second
  component of the state lists the texts handed to \<^verbatim>\<open>Parse\<close>.
\<close>

definition header_parse_step ::
  "('t, 'j) golib \<Rightarrow> string \<times> string \<Rightarrow> 't HeaderModifier \<times> string list
     \<Rightarrow> 't HeaderModifier \<times> string list" where
  "header_parse_step L entry st =
     (case entry of (headerName, templateStr) \<Rightarrow>
      case st of (hm, compiled) \<Rightarrow>
        if templateStr \<noteq> [] then
          (case tmpl_parse L [] templateStr of
             None \<Rightarrow> (hm, compiled @ [templateStr])
           | Some tmpl \<Rightarrow>
               (hm\<lparr>templates := AList.update headerName tmpl (templates hm),
                   templateStrings := AList.update headerName templateStr (templateStrings hm)\<rparr>,
                compiled @ [templateStr]))
        else (hm, compiled))"

definition NewHeaderModifier_log ::
  "('t, 'j) golib \<Rightarrow> (string \<times> string) list \<Rightarrow> 't HeaderModifier \<times> string list" where
  "NewHeaderModifier_log L config =
     fold (header_parse_step L) config (\<lparr>templates = [], templateStrings = []\<rparr>, [])"

definition NewHeaderModifier ::
  "('t, 'j) golib \<Rightarrow> (string \<times> string) list \<Rightarrow> 't HeaderModifier" where
  "NewHeaderModifier L config = fst (NewHeaderModifier_log L config)"

text \<open>\<^verbatim>\<open>convertHeaders\<close>: lower-cased name to first value.\<close>

definition convertHeaders :: "('t, 'j) golib \<Rightarrow> Header \<Rightarrow> (string \<times> string) list" where
  "convertHeaders L headers =
     fold (\<lambda>(name, values) result.
             if values \<noteq> [] then AList.update (to_lower L name) (hd values) result
             else result)
       headers []"

text \<open>The snapshot \<^verbatim>\<open>originalHeaders\<close> taken at the start of \<^verbatim>\<open>ModifyHeaders\<close>.\<close>

definition originalHeaders :: "Header \<Rightarrow> (string \<times> string) list" where
  "originalHeaders headers =
     fold (\<lambda>(name, values) result.
             if values \<noteq> [] then AList.update name (hd values) result else result)
       headers []"

definition header_templateData ::
  "('t, 'j) golib \<Rightarrow> Request \<Rightarrow> 'j TemplateContext \<Rightarrow> 'j tval" where
  "header_templateData L req ctx =
     TMap [(''request'', TMap
              [(''headers'', TMap (map (\<lambda>(k, v). (k, TStr v)) (convertHeaders L (Hdr req)))),
               (''method'', TStr (Method req)),
               (''url'', TStr (url_string L (Path (Url req)) (RawQuery (Url req)))),
               (''path'', TStr (Path (Url req)))]),
           (''context'', TMap ctx)]"

text \<open>First loop of \<^verbatim>\<open>ModifyHeaders\<close>: the map \<^verbatim>\<open>modifiedHeaders\<close>.\<close>

definition render_step ::
  "('t, 'j) golib \<Rightarrow> 'j tval \<Rightarrow> string \<times> 't \<Rightarrow> (string \<times> string) list
     \<Rightarrow> (string \<times> string) list" where
  "render_step L templateData entry modifiedHeaders =
     (case entry of (headerName, tmpl) \<Rightarrow>
        (case tmpl_execute L tmpl templateData of
           None \<Rightarrow> modifiedHeaders
         | Some buf \<Rightarrow>
             (let headerValue = trim_space L buf in
              if headerValue \<noteq> [] then AList.update headerName headerValue modifiedHeaders
              else modifiedHeaders)))"

definition modifiedHeaders ::
  "('t, 'j) golib \<Rightarrow> 'j tval \<Rightarrow> (string \<times> 't) list \<Rightarrow> (string \<times> string) list" where
  "modifiedHeaders L templateData ts = fold (render_step L templateData) ts []"



text \<open>Second loop: \<^verbatim>\<open>Set\<close> if the name is in the snapshot up to case, \<^verbatim>\<open>Add\<close> otherwise.\<close>

definition headerExistsInOriginal ::
  "('t, 'j) golib \<Rightarrow> (string \<times> string) list \<Rightarrow> string \<Rightarrow> bool" where
  "headerExistsInOriginal L orig headerName =
     list_ex (\<lambda>(origName, origValue). equal_fold L origName headerName) orig"

definition apply_step ::
  "('t, 'j) golib \<Rightarrow> (string \<times> string) list \<Rightarrow> string \<times> string \<Rightarrow> Header \<Rightarrow> Header" where
  "apply_step L orig entry h =
     (case entry of (headerName, headerValue) \<Rightarrow>
        if headerExistsInOriginal L orig headerName
        then Header_Set L h headerName headerValue
        else Header_Add L h headerName headerValue)"

definition apply_headers ::
  "('t, 'j) golib \<Rightarrow> (string \<times> string) list \<Rightarrow> (string \<times> string) list \<Rightarrow> Header
     \<Rightarrow> Header" where
  "apply_headers L orig ms h = fold (apply_step L orig) ms h"

text \<open>
  \<^verbatim>\<open>ModifyHeaders\<close>. It always returns \<^verbatim>\<open>nil\<close>; the model returns the request.
  \<open>ro\<close> is the order in which the second \<^verbatim>\<open>range\<close> visits \<^verbatim>\<open>modifiedHeaders\<close>
  (Go does not fix it). The context is dereferenced, so it is not optional here.
\<close>

definition ModifyHeaders ::
  "('t, 'j) golib \<Rightarrow> ((string \<times> string) list \<Rightarrow> (string \<times> string) list)
     \<Rightarrow> 't HeaderModifier \<Rightarrow> Request \<Rightarrow> 'j TemplateContext \<Rightarrow> Request" where
  "ModifyHeaders L ro hm req ctx =
     (if templates hm = [] then req
      else
        (let orig = originalHeaders (Hdr req);
             templateData = header_templateData L req ctx;
             ms = modifiedHeaders L templateData (templates hm)
         in req\<lparr>Hdr := apply_headers L orig (ro ms) (Hdr req)\<rparr>))"

section \<open>Query modifier\<close>

record QueryModifier =
  transforms :: "(string \<times> string) list"

definition NewQueryModifier :: "(string \<times> string) list \<Rightarrow> QueryModifier" where
  "NewQueryModifier ts = \<lparr>transforms = ts\<rparr>"

text \<open>\<^verbatim>\<open>queryParamsToMap\<close> and \<^verbatim>\<open>headerToMap\<close>: a single value as a string, else the list.\<close>

definition queryParamsToMap :: "Values \<Rightarrow> (string \<times> 'j tval) list" where
  "queryParamsToMap values =
     fold (\<lambda>(key, vals) result.
             AList.update key (if length vals = 1 then TStr (hd vals) else TStrs vals) result)
       values []"

definition headerToMap :: "Header \<Rightarrow> (string \<times> 'j tval) list" where
  "headerToMap headers =
     fold (\<lambda>(key, vals) result.
             AList.update key (if length vals = 1 then TStr (hd vals) else TStrs vals) result)
       headers []"

definition context_entry :: "'j TemplateContext option \<Rightarrow> (string \<times> 'j tval) list" where
  "context_entry ctx = (case ctx of None \<Rightarrow> [] | Some c \<Rightarrow> [(''context'', TMap c)])"

definition query_templateData ::
  "Values \<Rightarrow> Request \<Rightarrow> 'j TemplateContext option \<Rightarrow> 'j tval" where
  "query_templateData values req ctx =
     TMap ([(''request'', TMap
              [(''query'', TMap (queryParamsToMap values)),
               (''header'', TMap (headerToMap (Hdr req))),
               (''method'', TStr (Method req)),
               (''path'', TStr (Path (Url req)))])]
           @ context_entry ctx)"

text \<open>
  One round of the loop over \<^verbatim>\<open>qm.transforms\<close>. The state is the parameter map and the
  list of template texts handed to \<^verbatim>\<open>Parse\<close> so far.
\<close>

definition query_step ::
  "('t, 'j) golib \<Rightarrow> 'j tval \<Rightarrow> string \<times> string \<Rightarrow> Values \<times> string list
     \<Rightarrow> Values \<times> string list" where
  "query_step L templateData entry st =
     (case entry of (targetParam, templateStr) \<Rightarrow>
      case st of (values, compiled) \<Rightarrow>
        (case tmpl_parse L SimpleFuncMap templateStr of
           None \<Rightarrow> (values, compiled @ [templateStr])
         | Some tmpl \<Rightarrow>
             (case tmpl_execute L tmpl templateData of
                None \<Rightarrow> (values, compiled @ [templateStr])
              | Some buf \<Rightarrow>
                  (let result = ReplaceAll buf no_value [] in
                   if result \<noteq> [] then
                     (if Values_Has values targetParam
                      then (Values_Set values targetParam result, compiled @ [templateStr])
                      else (Values_Add values targetParam result, compiled @ [templateStr]))
                   else (values, compiled @ [templateStr])))))"

text \<open>
  What one query template yields: the rendering with the placeholder removed, if the
  text parses, the template executes and the cleaned text is not empty.
\<close>

definition query_result :: "('t, 'j) golib \<Rightarrow> 'j tval \<Rightarrow> string \<Rightarrow> string option" where
  "query_result L templateData templateStr =
     (case tmpl_parse L SimpleFuncMap templateStr of
        None \<Rightarrow> None
      | Some tmpl \<Rightarrow>
          (case tmpl_execute L tmpl templateData of
             None \<Rightarrow> None
           | Some buf \<Rightarrow>
               if ReplaceAll buf no_value [] \<noteq> [] then Some (ReplaceAll buf no_value [])
               else None))"

text \<open>The parameter map after the loop of \<^verbatim>\<open>ModifyQueryWithContext\<close>.\<close>

definition query_values ::
  "('t, 'j) golib \<Rightarrow> QueryModifier \<Rightarrow> Request \<Rightarrow> 'j TemplateContext option \<Rightarrow> Values" where
  "query_values L qm req ctx =
     fst (fold (query_step L
                  (query_templateData (parse_query L (RawQuery (Url req))) req ctx))
            (transforms qm) (parse_query L (RawQuery (Url req)), []))"

text \<open>
  \<^verbatim>\<open>ModifyQueryWithContext\<close>: the returned error (always \<^verbatim>\<open>nil\<close>, here \<open>None\<close>), the
  request afterwards, and the template texts parsed during the call.
\<close>

datatype err =
    ReadBodyFailed
  | ParseRequestJSONFailed
  | ExecRequestTemplateFailed
  | ResponseMaskingError
  | FormatJSONFailed

definition ModifyQueryWithContext ::
  "('t, 'j) golib \<Rightarrow> QueryModifier \<Rightarrow> Request \<Rightarrow> 'j TemplateContext option
     \<Rightarrow> err option \<times> Request \<times> string list" where
  "ModifyQueryWithContext L qm req ctx =
     (if transforms qm = [] then (None, req, [])
      else
        (let values = parse_query L (RawQuery (Url req));
             templateData = query_templateData values req ctx;
             st = fold (query_step L templateData) (transforms qm) (values, []);
             u = (Url req)\<lparr>RawQuery := Values_Encode L (fst st)\<rparr>
         in (None,
             req\<lparr>Url := u, RequestURI := url_request_uri L (Path u) (RawQuery u)\<rparr>,
             snd st)))"

section \<open>Body modifier\<close>

record BodyModifier =
  templateRequest :: string
  templateResponse :: "(int \<times> string) list"

definition NewBodyModifier :: "string \<Rightarrow> (int \<times> string) list \<Rightarrow> BodyModifier" where
  "NewBodyModifier req_t resp_t = \<lparr>templateRequest = req_t, templateResponse = resp_t\<rparr>"

text \<open>
  What a body operation can end with besides a value: a returned error, or the panic of
  \<^verbatim>\<open>template.Must\<close> on a template text that does not parse.
\<close>

datatype 'a outcome = Returned 'a | Failed err | Panicked



text \<open>
  \<^verbatim>\<open>ResponseWriter\<close>, the capture: \<^verbatim>\<open>Write\<close> appends to the buffer, \<^verbatim>\<open>WriteHeader\<close>
  stores the code; nothing reaches the wrapped writer.
\<close>

record ResponseWriter =
  body :: bytes
  statusCode :: int

definition NewResponseWriter :: ResponseWriter where
  "NewResponseWriter = \<lparr>body = [], statusCode = 200\<rparr>"

definition rw_Write :: "ResponseWriter \<Rightarrow> bytes \<Rightarrow> ResponseWriter" where
  "rw_Write rw b = rw\<lparr>body := body rw @ b\<rparr>"

definition rw_WriteHeader :: "ResponseWriter \<Rightarrow> int \<Rightarrow> ResponseWriter" where
  "rw_WriteHeader rw code = rw\<lparr>statusCode := code\<rparr>"

definition GetBody :: "ResponseWriter \<Rightarrow> bytes" where
  "GetBody rw = body rw"

definition GetStatusCode :: "ResponseWriter \<Rightarrow> int" where
  "GetStatusCode rw = statusCode rw"

text \<open>
  What the plugin does to the real \<^verbatim>\<open>http.ResponseWriter\<close> (an interface the host
  implements), as the list of calls made on it, in order: \<^verbatim>\<open>Header().Set\<close>,
  \<^verbatim>\<open>WriteHeader\<close>, \<^verbatim>\<open>Write\<close>, and \<^verbatim>\<open>http.Error(w, msg, code)\<close>.
\<close>

datatype event =
    HeaderSet string string
  | WriteHeader int
  | Write bytes
  | HttpError string int

definition decode_or_nil :: "('t, 'j) golib \<Rightarrow> bytes \<Rightarrow> 'j tval" where
  "decode_or_nil L b =
     (if b \<noteq> [] then (case json_unmarshal L b of None \<Rightarrow> TNil | Some j \<Rightarrow> TJson j)
      else TNil)"

definition decode_or_raw :: "('t, 'j) golib \<Rightarrow> bytes \<Rightarrow> 'j tval" where
  "decode_or_raw L b =
     (if b \<noteq> [] then (case json_unmarshal L b of None \<Rightarrow> TStr b | Some j \<Rightarrow> TJson j)
      else TNil)"

definition response_templateData ::
  "'j tval \<Rightarrow> 'j tval \<Rightarrow> 'j tval \<Rightarrow> 'j TemplateContext option \<Rightarrow> 'j tval" where
  "response_templateData requestDataOriginal requestDataModified responseData ctx =
     TMap ([(''request'', TMap [(''api'', TMap [(''body'', requestDataOriginal)]),
                               (''modified'', TMap [(''body'', requestDataModified)])]),
            (''response'', TMap [(''body'', responseData)])]
           @ context_entry ctx)"

definition write_json :: "int \<Rightarrow> bytes \<Rightarrow> event list" where
  "write_json code formattedJSON =
     [HeaderSet ''Content-Length'' (Itoa (length formattedJSON)),
      HeaderSet ''Content-Type'' ''application/json'',
      WriteHeader code,
      Write formattedJSON]"

text \<open>
  \<^verbatim>\<open>ModifyResponseWithContext\<close>: how the call ends, the calls made on the real writer,
  and the template texts parsed during the call.
\<close>

definition ModifyResponseWithContext ::
  "('t, 'j) golib \<Rightarrow> BodyModifier \<Rightarrow> ResponseWriter \<Rightarrow> bytes \<Rightarrow> bytes
     \<Rightarrow> 'j TemplateContext option \<Rightarrow> unit outcome \<times> event list \<times> string list" where
  "ModifyResponseWithContext L bm capturedResponse originalRequestBody modifiedRequestBody ctx =
     (if templateResponse bm = [] then
        (Returned (),
         [WriteHeader (statusCode capturedResponse), Write (body capturedResponse)], [])
      else
        (case map_of (templateResponse bm) (statusCode capturedResponse) of
           None \<Rightarrow>
             (Returned (),
              [WriteHeader (statusCode capturedResponse), Write (body capturedResponse)], [])
         | Some templateStr \<Rightarrow>
             (let requestDataOriginal = decode_or_nil L originalRequestBody;
                  requestDataModified = decode_or_nil L modifiedRequestBody;
                  responseData = decode_or_raw L (body capturedResponse)
              in case tmpl_parse L SimpleFuncMap templateStr of
                   None \<Rightarrow> (Panicked, [], [templateStr])
                 | Some tmpl \<Rightarrow>
                     (case tmpl_execute L tmpl
                             (response_templateData requestDataOriginal requestDataModified
                                responseData ctx) of
                        None \<Rightarrow> (Failed ResponseMaskingError, [], [templateStr])
                      | Some responseBytes \<Rightarrow>
                          (case json_unmarshal L responseBytes of
                             None \<Rightarrow>
                               (Returned (),
                                [HeaderSet ''Content-Length'' (Itoa (length responseBytes)),
                                 WriteHeader (statusCode capturedResponse),
                                 Write responseBytes],
                                [templateStr])
                           | Some jsonData \<Rightarrow>
                               (let cleanedJSON =
                                      ReplaceAll responseBytes quoted_no_value empty_json_string
                                in case json_unmarshal L cleanedJSON of
                                     None \<Rightarrow>
                                       (case json_marshal L jsonData of
                                          None \<Rightarrow> (Failed FormatJSONFailed, [], [templateStr])
                                        | Some formattedJSON \<Rightarrow>
                                            (Returned (),
                                             write_json (statusCode capturedResponse)
                                               formattedJSON,
                                             [templateStr]))
                                   | Some reparsed \<Rightarrow>
                                       (Returned (),
                                        write_json (statusCode capturedResponse) cleanedJSON,
                                        [templateStr])))))))"

section \<open>The middleware\<close>

text \<open>
  The downstream handler is the host's. What matters of it here is the list of calls it
  makes on the writer it is given, as a function of the request it receives.
\<close>

datatype hop = OpHeaderSet string string | OpWriteHeader int | OpWrite bytes

record QueryConfig =
  Transform :: "(string \<times> string) list"

record Config =
  ModifierRequest :: string
  ModifierResponse :: "(int \<times> string) list"
  ModifierQuery :: "QueryConfig option"
  ModifierHeader :: "(string \<times> string) list"

record 't modifier =
  next_handler :: "Request \<Rightarrow> hop list"
  bodyModifier :: BodyModifier
  queryModifier :: "QueryModifier option"
  headerModifier :: "'t HeaderModifier option"

definition New :: "('t, 'j) golib \<Rightarrow> (Request \<Rightarrow> hop list) \<Rightarrow> Config \<Rightarrow> 't modifier" where
  "New L nxt config =
     \<lparr>next_handler = nxt,
      bodyModifier = NewBodyModifier (ModifierRequest config) (ModifierResponse config),
      queryModifier =
        (case ModifierQuery config of
           None \<Rightarrow> None
         | Some qc \<Rightarrow> if Transform qc \<noteq> [] then Some (NewQueryModifier (Transform qc)) else None),
      headerModifier =
        (if ModifierHeader config \<noteq> [] then Some (NewHeaderModifier L (ModifierHeader config))
         else None)\<rparr>"


definition capture_step :: "hop \<Rightarrow> ResponseWriter \<times> event list \<Rightarrow> ResponseWriter \<times> event list" where
  "capture_step h st =
     (case st of (rw, evs) \<Rightarrow>
        (case h of
           OpHeaderSet k v \<Rightarrow> (rw, evs @ [HeaderSet k v])
         | OpWriteHeader c \<Rightarrow> (rw_WriteHeader rw c, evs)
         | OpWrite b \<Rightarrow> (rw_Write rw b, evs)))"

definition run_captured :: "hop list \<Rightarrow> ResponseWriter \<times> event list" where
  "run_captured ops = fold capture_step ops (NewResponseWriter, [])"

text \<open>
  What a request ends with: the calls made on the real writer, the request the
  downstream handler was invoked with (\<open>None\<close> if it was not invoked), the template
  texts parsed while serving it, and whether a panic ended it.
\<close>

record served =
  events :: "event list"
  forwarded :: "Request option"
  compiled :: "string list"
  panicked :: bool

text \<open>The fixed part of each error's message.\<close>

definition err_text :: "err \<Rightarrow> string" where
  "err_text e =
     (case e of
        ReadBodyFailed \<Rightarrow> ''failed to read request body''
      | ParseRequestJSONFailed \<Rightarrow> ''failed to parse request JSON''
      | ExecRequestTemplateFailed \<Rightarrow> ''failed to execute request template''
      | ResponseMaskingError \<Rightarrow> ''response masking error''
      | FormatJSONFailed \<Rightarrow> ''failed to format JSON'')"

definition handleResponseMasking ::
  "('t, 'j) golib \<Rightarrow> 't modifier \<Rightarrow> Request \<Rightarrow> bytes \<Rightarrow> bytes \<Rightarrow> 'j TemplateContext
     \<Rightarrow> string list \<Rightarrow> served" where
  "handleResponseMasking L m req originalRequestBody modifiedRequestBody ctx log =
     (case run_captured (next_handler m req) of (captureWriter, evs) \<Rightarrow>
        (case ModifyResponseWithContext L (bodyModifier m) captureWriter originalRequestBody
                modifiedRequestBody (Some ctx) of
           (Returned u, evs', log') \<Rightarrow>
             \<lparr>events = evs @ evs', forwarded = Some req, compiled = log @ log',
              panicked = False\<rparr>
         | (Failed e, evs', log') \<Rightarrow>
             \<lparr>events = evs @ evs' @ [HttpError (err_text e) 500], forwarded = Some req,
              compiled = log @ log', panicked = False\<rparr>
         | (Panicked, evs', log') \<Rightarrow>
             \<lparr>events = evs @ evs', forwarded = Some req, compiled = log @ log',
              panicked = True\<rparr>))"


section \<open>A stand-in library for evaluating the model\<close>

text \<open>
  To evaluate the model at a concrete request the library parameters have to be fixed.
  The stand-in below is not a model of the Go library; it gives the library's answer on
  the inputs used in this file and nothing is claimed of it elsewhere:
  \<^item> a template text without \<open>[[\<close> is literal text and renders as itself; the
    template texts in \<open>known_templates\<close> parse to what is listed, a function call only
    if the function is bound; a field chain through maps renders the string found, and
    the placeholder \<open><no value>\<close> when a key is missing; function calls are not run
    (executing one is reported as an error, and no statement below executes one);
  \<^item> decoded JSON is kept as the compact encoding \<^verbatim>\<open>json.Marshal\<close> gives back; the
    texts in \<open>json_table\<close> are valid JSON, every other text used below is not;
  \<^item> header names are ASCII tokens, white space is ASCII, query strings are the ones in
    \<open>query_table\<close> and need no escaping.
\<close>

datatype seg = Text string | Field "string list" | Call string

definition known_templates :: "(string \<times> seg list) list" where
  "known_templates =
     [(''[1, [[ .context.missing ]]]'',
         [Text ''[1, '', Field [''context'', ''missing''], Text '']'']),
      (''[[ .request.query.ask_id ]]_[[ .request.query.missing ]]'',
         [Field [''request'', ''query'', ''ask_id''], Text ''_'',
          Field [''request'', ''query'', ''missing'']]),
      (''[[ .request.query.missing ]]'', [Field [''request'', ''query'', ''missing'']]),
      (''['' @ [CHR 0x22] @ ''[[ .context.missing ]]'' @ [CHR 0x22] @ '']'',
         [Text (''['' @ [CHR 0x22]), Field [''context'', ''missing''],
          Text ([CHR 0x22] @ '']'')]),
      (''[[ unixEpoch ]]'', [Call ''unixEpoch''])]"

definition seg_bound :: "string list \<Rightarrow> seg \<Rightarrow> bool" where
  "seg_bound fs g = (case g of Call f \<Rightarrow> f \<in> set fs | _ \<Rightarrow> True)"

definition std_parse :: "string list \<Rightarrow> string \<Rightarrow> seg list option" where
  "std_parse fs s =
     (if Contains s ''[['' then
        (case map_of known_templates s of
           None \<Rightarrow> None
         | Some segs \<Rightarrow> if list_all (seg_bound fs) segs then Some segs else None)
      else Some [Text s])"

fun lookup_path :: "string tval \<Rightarrow> string list \<Rightarrow> string option" where
  "lookup_path v [] = (case v of TStr s \<Rightarrow> Some s | _ \<Rightarrow> None)"
| "lookup_path v (k # ks) =
     (case v of
        TMap m \<Rightarrow> (case map_of m k of None \<Rightarrow> Some no_value | Some w \<Rightarrow> lookup_path w ks)
      | _ \<Rightarrow> None)"

fun std_exec :: "seg list \<Rightarrow> string tval \<Rightarrow> string option" where
  "std_exec [] d = Some []"
| "std_exec (g # gs) d =
     (case (case g of Text s \<Rightarrow> Some s | Field p \<Rightarrow> lookup_path d p | Call f \<Rightarrow> None) of
        None \<Rightarrow> None
      | Some a \<Rightarrow> map_option ((@) a) (std_exec gs d))"

definition json_table :: "(string \<times> string) list" where
  "json_table =
     [(''[1, 2]'', ''[1,2]''), (''[1,2]'', ''[1,2]''), (''7'', ''7''),
      (''['' @ quoted_no_value @ '']'',
         ''['' @ [CHR 0x22, CHR 0x5C] @ ''u003cno value'' @ [CHR 0x5C] @ ''u003e''
           @ [CHR 0x22] @ '']''),
      (''['' @ empty_json_string @ '']'', ''['' @ empty_json_string @ '']'')]"

definition ascii_lower :: "char \<Rightarrow> char" where
  "ascii_lower c =
     (case map_of (zip ''ABCDEFGHIJKLMNOPQRSTUVWXYZ'' ''abcdefghijklmnopqrstuvwxyz'') c of
        None \<Rightarrow> c | Some d \<Rightarrow> d)"

definition ascii_upper :: "char \<Rightarrow> char" where
  "ascii_upper c =
     (case map_of (zip ''abcdefghijklmnopqrstuvwxyz'' ''ABCDEFGHIJKLMNOPQRSTUVWXYZ'') c of
        None \<Rightarrow> c | Some d \<Rightarrow> d)"

fun canon_from :: "bool \<Rightarrow> string \<Rightarrow> string" where
  "canon_from up [] = []"
| "canon_from up (c # cs) =
     (if up then ascii_upper c else ascii_lower c) # canon_from (c = CHR ''-'') cs"

definition is_space :: "char \<Rightarrow> bool" where
  "is_space c = (c \<in> set [CHR '' '', CHR 0x09, CHR 0x0A, CHR 0x0D])"

definition std_trim :: "string \<Rightarrow> string" where
  "std_trim s = rev (dropWhile is_space (rev (dropWhile is_space s)))"

definition query_table :: "(string \<times> Values) list" where
  "query_table =
     [(''ask_id=123'', [(''ask_id'', [''123''])]),
      (''b=2&a=1'', [(''b'', [''2'']), (''a'', [''1''])])]"

definition std_uri :: "string \<Rightarrow> string \<Rightarrow> string" where
  "std_uri p q = p @ (if q = [] then [] else ''?'' @ q)"

definition L0 :: "(seg list, string) golib" where
  "L0 = \<lparr>tmpl_parse = std_parse,
         tmpl_execute = std_exec,
         json_unmarshal = map_of json_table,
         json_marshal = Some,
         canonical_key = canon_from True,
         equal_fold = (\<lambda>a b. map ascii_lower a = map ascii_lower b),
         to_lower = map ascii_lower,
         trim_space = std_trim,
         parse_query = (\<lambda>q. case map_of query_table q of None \<Rightarrow> [] | Some v \<Rightarrow> v),
         query_escape = (\<lambda>s. s),
         url_string = std_uri,
         url_request_uri = std_uri\<rparr>"

text \<open>A request and a downstream handler to evaluate at.\<close>

definition req0 :: Request where
  "req0 = \<lparr>Method = ''POST'', Url = \<lparr>Path = ''/chat'', RawQuery = ''b=2&a=1''\<rparr>,
           RequestURI = ''/chat?b=2&a=1'',
           Hdr = [(''Authorization'', [''Bearer old''])],
           ReqBody = Body ''{bad'', ContentLength = 4\<rparr>"

definition handler0 :: "Request \<Rightarrow> hop list" where
  "handler0 r = [OpWriteHeader 201, OpWrite ''ab'', OpWrite ''cd'']"

text \<open>A context and a header modifier to evaluate at.\<close>

definition ctx0 :: "string TemplateContext" where
  "ctx0 = [(''unixtime'', TInt 42)]"


text \<open>A middleware with a response template for status 404 only.\<close>

definition m2 :: "seg list modifier" where
  "m2 = New L0 handler0
          \<lparr>ModifierRequest = [], ModifierResponse = [(404, ''gone'')],
           ModifierQuery = None, ModifierHeader = []\<rparr>"


text \<open>Query modifiers and requests to evaluate at.\<close>

definition qm7 :: QueryModifier where
  "qm7 = NewQueryModifier
     [(''question_id'', ''[[ .request.query.ask_id ]]_[[ .request.query.missing ]]'')]"

definition req7 :: Request where
  "req7 = req0\<lparr>Url := \<lparr>Path = ''/chat'', RawQuery = ''ask_id=123''\<rparr>\<rparr>"

definition config10 :: Config where
  "config10 = \<lparr>ModifierRequest = [], ModifierResponse = [],
               ModifierQuery = Some \<lparr>Transform = [(''x'', ''[[ .request.query.missing ]]'')]\<rparr>,
               ModifierHeader = []\<rparr>"

definition qm10 :: QueryModifier where
  "qm10 = NewQueryModifier [(''x'', ''[[ .request.query.missing ]]'')]"

text \<open>Body modifiers, a capture and middlewares to evaluate at.\<close>

definition cap0 :: ResponseWriter where
  "cap0 = \<lparr>body = ''7'', statusCode = 200\<rparr>"

definition bm1 :: BodyModifier where
  "bm1 = NewBodyModifier [] [(200, ''[1, 2]'')]"

definition bm5 :: BodyModifier where
  "bm5 = NewBodyModifier [] [(200, ''[1, [[ .context.missing ]]]'')]"

definition bm5q :: BodyModifier where
  "bm5q = NewBodyModifier []
            [(200, ''['' @ [CHR 0x22] @ ''[[ .context.missing ]]'' @ [CHR 0x22] @ '']'')]"



section \<open>Header modifier: the two ranges\<close>















section \<open>Response pass-through\<close>

lemma run_captured_body_aux:
  "body (fst (fold capture_step ops (rw, evs))) =
     body rw @ concat (map (\<lambda>h. case h of OpWrite b \<Rightarrow> b | _ \<Rightarrow> []) ops)"
  by (induction ops arbitrary: rw evs)
     (auto simp: capture_step_def rw_Write_def rw_WriteHeader_def split: hop.splits)

lemma run_captured_body:
  "body (fst (run_captured ops)) =
     concat (map (\<lambda>h. case h of OpWrite b \<Rightarrow> b | _ \<Rightarrow> []) ops)"
  by (simp add: run_captured_def run_captured_body_aux NewResponseWriter_def)

text \<open>
  C2. When no response template is configured, or none is configured for the captured
  status code, \<^verbatim>\<open>ModifyResponseWithContext\<close> calls \<^verbatim>\<open>WriteHeader\<close> with the captured status
  code and \<^verbatim>\<open>Write\<close> with the captured bytes, and nothing else; so the real writer
  receives exactly the status and the bytes the downstream handler left in the capture.
\<close>

theorem C2_pass_through:
  assumes "templateResponse (bodyModifier m) = []
           \<or> map_of (templateResponse (bodyModifier m)) (statusCode cap) = None"
      and "run_captured (next_handler m req) = (cap, evs)"
  shows "ModifyResponseWithContext L (bodyModifier m) cap ob mb ctx
           = (Returned (), [WriteHeader (statusCode cap), Write (body cap)], [])
         \<and> events (handleResponseMasking L m req ob mb c lg)
           = evs @ [WriteHeader (statusCode cap), Write (body cap)]"
proof -
  have 1: "ModifyResponseWithContext L (bodyModifier m) cap ob mb ctx
           = (Returned (), [WriteHeader (statusCode cap), Write (body cap)], [])" for ctx
    using assms(1) by (auto simp: ModifyResponseWithContext_def)
  show ?thesis
    using 1 assms(2) by (simp add: handleResponseMasking_def)
qed

theorem C2_witness:
  "ModifyResponseWithContext L0 (bodyModifier m2) \<lparr>body = ''abcd'', statusCode = 201\<rparr> [] []
     (Some ctx0) = (Returned (), [WriteHeader 201, Write ''abcd''], [])
   \<and> events (handleResponseMasking L0 m2 req0 [] [] ctx0 []) = [WriteHeader 201, Write ''abcd'']"
proof -
  have nomatch: "templateResponse (bodyModifier m2) = []
           \<or> map_of (templateResponse (bodyModifier m2))
                (statusCode \<lparr>body = ''abcd'', statusCode = 201\<rparr>) = None"
    by (simp add: m2_def New_def NewBodyModifier_def)
  have run: "run_captured (next_handler m2 req0) = (\<lparr>body = ''abcd'', statusCode = 201\<rparr>, [])"
    by (simp add: m2_def New_def handler0_def run_captured_def capture_step_def
        NewResponseWriter_def rw_Write_def rw_WriteHeader_def)
  show ?thesis
    using C2_pass_through [OF nomatch run, of L0 "[]" "[]" "Some ctx0" ctx0 "[]"] by simp
qed

section \<open>Header modifier: replace or append\<close>







section \<open>Header modifier: a template that renders nothing\<close>






section \<open>Query modifier\<close>

lemma query_step_eq:
  "query_step L d (k, t) (values, lg) =
     ((case query_result L d t of
         None \<Rightarrow> values
       | Some r \<Rightarrow> if Values_Has values k then Values_Set values k r else Values_Add values k r),
      lg @ [t])"
  by (simp add: query_step_def query_result_def Let_def split: option.splits)

lemma query_step_map_of:
  "map_of (fst (query_step L d (k, t) (values, lg))) x =
     (if x = k then (case query_result L d t of None \<Rightarrow> map_of values x | Some r \<Rightarrow> Some [r])
      else map_of values x)"
  by (auto simp: query_step_eq Values_Has_def Values_Set_def Values_Add_def update_conv'
      lookup_vals_def split: option.splits)

lemma fold_query_step_log:
  "snd (fold (query_step L d) ts st) = snd st @ map snd ts"
proof (induction ts arbitrary: st)
  case Nil
  then show ?case by simp
next
  case (Cons e ts)
  obtain k t where e: "e = (k, t)" by (cases e)
  obtain vs lg where st: "st = (vs, lg)" by (cases st)
  show ?case
    using Cons.IH [of "query_step L d (k, t) (vs, lg)"]
    by (simp add: e st query_step_eq)
qed

lemma fold_query_step_map_of:
  "distinct (map fst ts) \<Longrightarrow>
   map_of (fst (fold (query_step L d) ts st)) x =
     (case map_of ts x of
        None \<Rightarrow> map_of (fst st) x
      | Some t \<Rightarrow> (case query_result L d t of None \<Rightarrow> map_of (fst st) x | Some r \<Rightarrow> Some [r]))"
proof (induction ts arbitrary: st)
  case Nil
  then show ?case by simp
next
  case (Cons e ts)
  obtain k t where e: "e = (k, t)" by (cases e)
  obtain vs lg where st: "st = (vs, lg)" by (cases st)
  from Cons.prems e have d: "distinct (map fst ts)" and nk: "k \<notin> fst ` set ts" by auto
  from nk have none: "map_of ts k = None" by (simp add: map_of_eq_None_iff)
  show ?case
    using Cons.IH [OF d, of "query_step L d (k, t) (vs, lg)"] none
    by (auto simp: e st query_step_map_of split: option.splits)
qed

lemma fold_query_step_idle:
  "list_all (\<lambda>e. query_result L d (snd e) = None) ts \<Longrightarrow>
   fst (fold (query_step L d) ts st) = fst st"
proof (induction ts arbitrary: st)
  case Nil
  then show ?case by simp
next
  case (Cons e ts)
  obtain k t where e: "e = (k, t)" by (cases e)
  obtain vs lg where st: "st = (vs, lg)" by (cases st)
  show ?case
    using Cons.IH [of "query_step L d (k, t) (vs, lg)"] Cons.prems
    by (simp add: e st query_step_eq)
qed

lemma ModifyQuery_request:
  "transforms qm \<noteq> [] \<Longrightarrow>
   fst (snd (ModifyQueryWithContext L qm req ctx)) =
     req\<lparr>Url := (Url req)\<lparr>RawQuery := Values_Encode L (query_values L qm req ctx)\<rparr>,
         RequestURI := url_request_uri L (Path (Url req))
                         (Values_Encode L (query_values L qm req ctx))\<rparr>"
  by (simp add: ModifyQueryWithContext_def Let_def query_values_def)

lemma ModifyQuery_frame:
  "ReqBody (fst (snd (ModifyQueryWithContext L qm req ctx))) = ReqBody req
   \<and> Hdr (fst (snd (ModifyQueryWithContext L qm req ctx))) = Hdr req
   \<and> Method (fst (snd (ModifyQueryWithContext L qm req ctx))) = Method req
   \<and> ContentLength (fst (snd (ModifyQueryWithContext L qm req ctx))) = ContentLength req
   \<and> Path (Url (fst (snd (ModifyQueryWithContext L qm req ctx)))) = Path (Url req)"
  by (simp add: ModifyQueryWithContext_def Let_def)

lemma sorted_sorted_keys: "sorted (sorted_keys v)"
  by (simp add: sorted_keys_def)

text \<open>
  The placeholder does not overlap itself, so \<^verbatim>\<open>ReplaceAll\<close> removes an occurrence wherever
  it stands in the text.
\<close>

lemma no_value_unbordered:
  assumes "0 < k" "k < length no_value"
  shows "\<not> prefix (drop k no_value) (no_value @ ys)"
proof -
  from assms have "k \<in> {1, 2, 3, 4, 5, 6, 7, 8, 9}"
    by (auto simp: no_value_def)
  then show ?thesis
    by (auto simp: no_value_def)
qed

lemma prefix_straddle:
  assumes p: "prefix no_value (xs @ no_value @ ys)" and short: "length xs < length no_value"
      and ne: "xs \<noteq> []"
  shows False
proof -
  from p obtain zs where eq: "xs @ no_value @ ys = no_value @ zs"
    by (auto simp: prefix_def)
  have "drop (length xs) (xs @ no_value @ ys) = no_value @ ys" by simp
  with eq have "no_value @ ys = drop (length xs) no_value @ zs"
    using short by simp
  then have "prefix (drop (length xs) no_value) (no_value @ ys)"
    by (simp add: prefix_def)
  moreover have "0 < length xs" using ne by simp
  ultimately show False using no_value_unbordered short by blast
qed

lemma drop_append_short: "n \<le> length xs \<Longrightarrow> drop n (xs @ zs) = drop n xs @ zs"
  by simp

lemma ReplaceAll_embedded:
  "ReplaceAll (xs @ no_value @ ys) no_value new
     = ReplaceAll xs no_value new @ new @ ReplaceAll ys no_value new"
proof (induction xs rule: length_induct)
  case (1 xs)
  have nvne: "no_value \<noteq> []" by (simp add: no_value_def)
  show ?case
  proof (cases xs)
    case Nil
    obtain c cs where nv: "no_value = c # cs" using nvne by (cases no_value) auto
    have "ReplaceAll (no_value @ ys) no_value new
          = new @ ReplaceAll (drop (length no_value) (no_value @ ys)) no_value new"
      using ReplaceAll.simps(2) [of c "cs @ ys" no_value new] nvne
      by (simp add: nv del: ReplaceAll.simps)
    then show ?thesis using Nil by simp
  next
    case (Cons c cs)
    show ?thesis
    proof (cases "prefix no_value (c # cs)")
      case True
      then have len: "length no_value \<le> length (c # cs)" by (rule prefix_length_le)
      have pre: "prefix no_value ((c # cs) @ no_value @ ys)"
        using True by (rule prefix_prefix)
      have dr: "drop (length no_value) ((c # cs) @ no_value @ ys)
                = drop (length no_value) (c # cs) @ no_value @ ys"
        using len by (rule drop_append_short)
      have shorter: "length (drop (length no_value) (c # cs)) < length xs"
        using nvne Cons by (cases no_value) auto
      have "ReplaceAll ((c # cs) @ no_value @ ys) no_value new
            = new @ ReplaceAll (drop (length no_value) (c # cs) @ no_value @ ys) no_value new"
        using pre nvne dr by simp
      also have "\<dots> = new @ ReplaceAll (drop (length no_value) (c # cs)) no_value new
                        @ new @ ReplaceAll ys no_value new"
        using "1.IH" shorter by simp
      also have "\<dots> = ReplaceAll (c # cs) no_value new @ new @ ReplaceAll ys no_value new"
        using True nvne by simp
      finally show ?thesis using Cons by simp
    next
      case False
      have npre: "\<not> prefix no_value ((c # cs) @ no_value @ ys)"
      proof
        assume a: "prefix no_value ((c # cs) @ no_value @ ys)"
        have "length (c # cs) < length no_value"
        proof (rule ccontr)
          assume "\<not> length (c # cs) < length no_value"
          then have "length no_value \<le> length (c # cs)" by simp
          with a have "prefix no_value (c # cs)"
            by (metis prefix_length_prefix prefixI)
          with False show False by simp
        qed
        with a show False using prefix_straddle [of "c # cs" ys] by simp
      qed
      have "ReplaceAll ((c # cs) @ no_value @ ys) no_value new
            = c # ReplaceAll (cs @ no_value @ ys) no_value new"
        using npre by simp
      also have "\<dots> = c # ReplaceAll cs no_value new @ new @ ReplaceAll ys no_value new"
        using "1.IH" Cons by simp
      also have "\<dots> = ReplaceAll (c # cs) no_value new @ new @ ReplaceAll ys no_value new"
        using False by simp
      finally show ?thesis using Cons by simp
    qed
  qed
qed

text \<open>
  C7. For a configured query key \<open>k\<close> whose template parses and executes to \<open>buf\<close>:
  the cleaned text is \<open>buf\<close> with \<open><no value>\<close> replaced by nothing, and an occurrence
  is removed wherever it stands in \<open>buf\<close>; if the cleaned text is not empty, the values
  of \<open>k\<close> become the cleaned text alone when \<open>k\<close> was a key of the query, and the old
  values with the cleaned text appended when it was not; if it is empty the values of
  \<open>k\<close> stay. Afterwards \<^verbatim>\<open>RawQuery\<close> is the encoding
  of the parameter map with the keys in sorted order, and \<^verbatim>\<open>RequestURI\<close> is the request
  URI of the updated URL.
\<close>

theorem C7_query_key_rewritten:
  assumes dist: "distinct (map fst (transforms qm))"
      and cfg: "(k, t) \<in> set (transforms qm)"
      and parse: "tmpl_parse L SimpleFuncMap t = Some tm"
      and exec: "tmpl_execute L tm
                   (query_templateData (parse_query L (RawQuery (Url req))) req ctx) = Some buf"
  shows "(\<forall>xs ys. buf = xs @ no_value @ ys \<longrightarrow>
            ReplaceAll buf no_value [] = ReplaceAll xs no_value [] @ ReplaceAll ys no_value [])
         \<and> lookup_vals (query_values L qm req ctx) k =
           (if ReplaceAll buf no_value [] = [] then lookup_vals (parse_query L (RawQuery (Url req))) k
            else if Values_Has (parse_query L (RawQuery (Url req))) k
                 then [ReplaceAll buf no_value []]
                 else lookup_vals (parse_query L (RawQuery (Url req))) k
                        @ [ReplaceAll buf no_value []])
         \<and> RawQuery (Url (fst (snd (ModifyQueryWithContext L qm req ctx))))
             = join_amp (concat (map (encode_key L (query_values L qm req ctx))
                                   (sorted_keys (query_values L qm req ctx))))
         \<and> sorted (sorted_keys (query_values L qm req ctx))
         \<and> RequestURI (fst (snd (ModifyQueryWithContext L qm req ctx)))
             = url_request_uri L (Path (Url (fst (snd (ModifyQueryWithContext L qm req ctx)))))
                 (RawQuery (Url (fst (snd (ModifyQueryWithContext L qm req ctx)))))"
proof -
  let ?qvals = "parse_query L (RawQuery (Url req))"
  let ?d = "query_templateData ?qvals req ctx"
  have ne: "transforms qm \<noteq> []" using cfg by auto
  have mt: "map_of (transforms qm) k = Some t" using dist cfg by simp
  have qr: "query_result L ?d t =
              (if ReplaceAll buf no_value [] \<noteq> [] then Some (ReplaceAll buf no_value []) else None)"
    using parse exec by (simp add: query_result_def)
  have "map_of (query_values L qm req ctx) k =
          (case query_result L ?d t of None \<Rightarrow> map_of ?qvals k | Some r \<Rightarrow> Some [r])"
    using fold_query_step_map_of [OF dist, of L ?d "(?qvals, [])" k] mt
    by (simp add: query_values_def split: option.splits)
  then have one: "lookup_vals (query_values L qm req ctx) k =
           (if ReplaceAll buf no_value [] = [] then lookup_vals ?qvals k
            else if Values_Has ?qvals k then [ReplaceAll buf no_value []]
                 else lookup_vals ?qvals k @ [ReplaceAll buf no_value []])"
    by (auto simp: qr lookup_vals_def Values_Has_def split: option.splits)
  have embedded: "\<forall>xs ys. buf = xs @ no_value @ ys \<longrightarrow>
            ReplaceAll buf no_value [] = ReplaceAll xs no_value [] @ ReplaceAll ys no_value []"
    using ReplaceAll_embedded [of _ _ "[]"] by simp
  have rest: "RawQuery (Url (fst (snd (ModifyQueryWithContext L qm req ctx))))
             = join_amp (concat (map (encode_key L (query_values L qm req ctx))
                                   (sorted_keys (query_values L qm req ctx))))
         \<and> sorted (sorted_keys (query_values L qm req ctx))
         \<and> RequestURI (fst (snd (ModifyQueryWithContext L qm req ctx)))
             = url_request_uri L (Path (Url (fst (snd (ModifyQueryWithContext L qm req ctx)))))
                 (RawQuery (Url (fst (snd (ModifyQueryWithContext L qm req ctx)))))"
    using ModifyQuery_request [OF ne, of L req ctx]
    by (simp add: Values_Encode_def sorted_sorted_keys)
  show ?thesis
    using embedded one rest by blast
qed

lemma qm7_exec:
  "tmpl_parse L0 SimpleFuncMap ''[[ .request.query.ask_id ]]_[[ .request.query.missing ]]''
     = Some [Field [''request'', ''query'', ''ask_id''], Text ''_'',
             Field [''request'', ''query'', ''missing'']]"
  "tmpl_execute L0 [Field [''request'', ''query'', ''ask_id''], Text ''_'',
                    Field [''request'', ''query'', ''missing'']]
     (query_templateData (parse_query L0 (RawQuery (Url req7))) req7 (Some ctx0))
     = Some ''123_<no value>''"
  by (simp_all add: L0_def std_parse_def known_templates_def seg_bound_def SimpleFuncMap_def
      req7_def req0_def query_table_def query_templateData_def queryParamsToMap_def
      no_value_def)

lemma clean7: "ReplaceAll ''123_<no value>'' no_value [] = ''123_''"
  by (simp add: no_value_def)

lemma values7: "query_values L0 qm7 req7 (Some ctx0)
                = [(''ask_id'', [''123'']), (''question_id'', [''123_''])]"
  using qm7_exec clean7
  by (simp add: query_values_def qm7_def NewQueryModifier_def query_step_def Let_def
      Values_Has_def Values_Add_def lookup_vals_def)
     (simp add: L0_def req7_def req0_def query_table_def)

lemma encode7: "Values_Encode L0 [(''ask_id'', [''123'']), (''question_id'', [''123_''])]
                = ''ask_id=123&question_id=123_''"
  by code_simp

theorem C7_witness:
  "lookup_vals (query_values L0 qm7 req7 (Some ctx0)) ''question_id'' = [''123_'']
   \<and> RawQuery (Url (fst (snd (ModifyQueryWithContext L0 qm7 req7 (Some ctx0)))))
       = ''ask_id=123&question_id=123_''
   \<and> RequestURI (fst (snd (ModifyQueryWithContext L0 qm7 req7 (Some ctx0))))
       = ''/chat?ask_id=123&question_id=123_''"
proof -
  have dist: "distinct (map fst (transforms qm7))"
    by (simp add: qm7_def NewQueryModifier_def)
  have cfg: "(''question_id'', ''[[ .request.query.ask_id ]]_[[ .request.query.missing ]]'')
             \<in> set (transforms qm7)"
    by (simp add: qm7_def NewQueryModifier_def)
  have has: "\<not> Values_Has (parse_query L0 (RawQuery (Url req7))) ''question_id''"
    by (simp add: Values_Has_def L0_def req7_def req0_def query_table_def)
  have old: "lookup_vals (parse_query L0 (RawQuery (Url req7))) ''question_id'' = []"
    by (simp add: lookup_vals_def L0_def req7_def req0_def query_table_def)
  have path: "Path (Url (fst (snd (ModifyQueryWithContext L0 qm7 req7 (Some ctx0))))) = ''/chat''"
    using ModifyQuery_frame [of L0 qm7 req7 "Some ctx0"] by (simp add: req7_def req0_def)
  have uri: "url_request_uri L0 ''/chat'' ''ask_id=123&question_id=123_''
             = ''/chat?ask_id=123&question_id=123_''"
    by (simp add: L0_def std_uri_def)
  show ?thesis
    using C7_query_key_rewritten [OF dist cfg qm7_exec(1) qm7_exec(2), THEN conjunct2]
    by (simp add: clean7 has old values7 encode7 [unfolded Values_Encode_def] path uri
        del: ReplaceAll.simps)
qed

lemma New_queryModifier:
  "queryModifier (New L nxt config) = Some qm \<Longrightarrow> transforms qm \<noteq> []"
  by (auto simp: New_def NewQueryModifier_def split: option.splits if_splits)

text \<open>
  C10. For the query modifier of a middleware built by \<^verbatim>\<open>New\<close>:
  \<^verbatim>\<open>ModifyQueryWithContext\<close> returns \<^verbatim>\<open>nil\<close>; it leaves the method, the path, the
  headers, the body and the content length as they were; \<^verbatim>\<open>RawQuery\<close> becomes the sorted
  encoding of the parameter map and \<^verbatim>\<open>RequestURI\<close> the matching request URI; and when no
  configured template yields a non-empty text, \<^verbatim>\<open>RawQuery\<close> is still replaced by the
  sorted encoding of the parameters it held, so its bytes can change.
\<close>

theorem C10_query_frame:
  assumes built: "queryModifier (New L nxt config) = Some qm"
  shows "fst (ModifyQueryWithContext L qm req ctx) = None
         \<and> Method (fst (snd (ModifyQueryWithContext L qm req ctx))) = Method req
         \<and> Path (Url (fst (snd (ModifyQueryWithContext L qm req ctx)))) = Path (Url req)
         \<and> Hdr (fst (snd (ModifyQueryWithContext L qm req ctx))) = Hdr req
         \<and> ReqBody (fst (snd (ModifyQueryWithContext L qm req ctx))) = ReqBody req
         \<and> ContentLength (fst (snd (ModifyQueryWithContext L qm req ctx))) = ContentLength req
         \<and> RawQuery (Url (fst (snd (ModifyQueryWithContext L qm req ctx))))
             = Values_Encode L (query_values L qm req ctx)
         \<and> RequestURI (fst (snd (ModifyQueryWithContext L qm req ctx)))
             = url_request_uri L (Path (Url req)) (Values_Encode L (query_values L qm req ctx))
         \<and> (list_all (\<lambda>e. query_result L
                              (query_templateData (parse_query L (RawQuery (Url req))) req ctx)
                              (snd e) = None) (transforms qm) \<longrightarrow>
              RawQuery (Url (fst (snd (ModifyQueryWithContext L qm req ctx))))
                = Values_Encode L (parse_query L (RawQuery (Url req))))"
proof -
  have ne: "transforms qm \<noteq> []" using built by (rule New_queryModifier)
  have nil: "fst (ModifyQueryWithContext L qm req ctx) = None"
    by (simp add: ModifyQueryWithContext_def Let_def)
  have idle: "query_values L qm req ctx = parse_query L (RawQuery (Url req))"
    if "list_all (\<lambda>e. query_result L
                              (query_templateData (parse_query L (RawQuery (Url req))) req ctx)
                              (snd e) = None) (transforms qm)"
    using fold_query_step_idle [OF that] by (simp add: query_values_def)
  show ?thesis
    using nil ModifyQuery_frame [of L qm req ctx] ModifyQuery_request [OF ne, of L req ctx] idle
    by simp
qed

text \<open>
  C3 says that no template is compiled while a request is served. The code does
  otherwise: the query modifier keeps template texts, and every call of
  \<^verbatim>\<open>ModifyQueryWithContext\<close> hands each configured text to \<^verbatim>\<open>Parse\<close> again.
\<close>

theorem C3_query_templates_parsed_on_every_call:
  "snd (snd (ModifyQueryWithContext L qm req ctx)) = map snd (transforms qm)"
  by (simp add: ModifyQueryWithContext_def Let_def fold_query_step_log)

lemma qm10_idle:
  "query_result L0 (query_templateData (parse_query L0 (RawQuery (Url req0))) req0 (Some ctx0))
     ''[[ .request.query.missing ]]'' = None"
proof -
  have "tmpl_parse L0 SimpleFuncMap ''[[ .request.query.missing ]]''
          = Some [Field [''request'', ''query'', ''missing'']]"
    by (simp add: L0_def std_parse_def known_templates_def seg_bound_def)
  moreover have "tmpl_execute L0 [Field [''request'', ''query'', ''missing'']]
          (query_templateData (parse_query L0 (RawQuery (Url req0))) req0 (Some ctx0))
          = Some no_value"
    by (simp add: L0_def query_templateData_def req0_def query_table_def queryParamsToMap_def)
  moreover have "ReplaceAll no_value no_value [] = []"
    by (simp add: no_value_def)
  ultimately show ?thesis
    by (simp add: query_result_def del: ReplaceAll.simps)
qed

lemma encode10: "Values_Encode L0 (parse_query L0 (RawQuery (Url req0))) = ''a=1&b=2''"
proof -
  have "parse_query L0 (RawQuery (Url req0)) = [(''b'', [''2'']), (''a'', [''1''])]"
    by (simp add: L0_def req0_def query_table_def)
  moreover have "Values_Encode L0 [(''b'', [''2'']), (''a'', [''1''])] = ''a=1&b=2''"
    by code_simp
  ultimately show ?thesis by simp
qed

theorem C10_witness:
  "fst (ModifyQueryWithContext L0 qm10 req0 (Some ctx0)) = None
   \<and> Hdr (fst (snd (ModifyQueryWithContext L0 qm10 req0 (Some ctx0)))) = Hdr req0
   \<and> RawQuery (Url req0) = ''b=2&a=1''
   \<and> RawQuery (Url (fst (snd (ModifyQueryWithContext L0 qm10 req0 (Some ctx0))))) = ''a=1&b=2''"
proof -
  have built: "queryModifier (New L0 handler0 config10) = Some qm10"
    by (simp add: New_def config10_def qm10_def)
  have idle: "list_all (\<lambda>e. query_result L0
                (query_templateData (parse_query L0 (RawQuery (Url req0))) req0 (Some ctx0))
                (snd e) = None) (transforms qm10)"
    using qm10_idle by (simp add: qm10_def NewQueryModifier_def)
  have raw: "RawQuery (Url req0) = ''b=2&a=1''" by (simp add: req0_def)
  note frame = C10_query_frame [OF built, of req0 "Some ctx0"]
  from frame idle
  have "RawQuery (Url (fst (snd (ModifyQueryWithContext L0 qm10 req0 (Some ctx0)))))
          = Values_Encode L0 (parse_query L0 (RawQuery (Url req0)))"
    by blast
  then have enc: "RawQuery (Url (fst (snd (ModifyQueryWithContext L0 qm10 req0 (Some ctx0)))))
          = ''a=1&b=2''"
    by (simp only: encode10)
  from frame have nil: "fst (ModifyQueryWithContext L0 qm10 req0 (Some ctx0)) = None"
    and hdr: "Hdr (fst (snd (ModifyQueryWithContext L0 qm10 req0 (Some ctx0)))) = Hdr req0"
    by blast+
  show ?thesis
    using nil hdr raw enc by blast
qed

section \<open>Response stage: what is written\<close>

lemma ReplaceAll_absent: "\<not> Contains s old \<Longrightarrow> ReplaceAll s old new = s"
  by (induction s) auto

text \<open>
  Rendered output that decodes as JSON and holds no quoted placeholder is written byte
  for byte as the template rendered it, white space included.
\<close>

lemma response_json_written_as_rendered:
  assumes "map_of (templateResponse bm) (statusCode cap) = Some ts"
      and "tmpl_parse L SimpleFuncMap ts = Some tm"
      and "tmpl_execute L tm
             (response_templateData (decode_or_nil L ob) (decode_or_nil L mb)
                (decode_or_raw L (body cap)) ctx) = Some rendered"
      and "json_unmarshal L rendered = Some j"
      and "\<not> Contains rendered quoted_no_value"
  shows "ModifyResponseWithContext L bm cap ob mb ctx
           = (Returned (), write_json (statusCode cap) rendered, [ts])"
proof -
  have ne: "templateResponse bm \<noteq> []" using assms(1) by auto
  have same: "ReplaceAll rendered quoted_no_value empty_json_string = rendered"
    using assms(5) by (rule ReplaceAll_absent)
  show ?thesis
    using ne assms(1-4)
    by (simp add: ModifyResponseWithContext_def Let_def same del: ReplaceAll.simps)
qed

text \<open>
  C1 says that JSON output is written minified. The code writes the cleaned bytes as the
  template rendered them: for the response template \<open>[1, 2]\<close> and a captured status of
  200 the six bytes \<open>[1, 2]\<close> are written, with \<^verbatim>\<open>Content-Length: 6\<close> and the JSON
  content type, while the compact encoding of that value is the five bytes \<open>[1,2]\<close>.
\<close>

theorem C1_written_bytes_not_minified:
  "ModifyResponseWithContext L0 bm1 cap0 [] [] (Some ctx0)
     = (Returned (),
        [HeaderSet ''Content-Length'' ''6'', HeaderSet ''Content-Type'' ''application/json'',
         WriteHeader 200, Write ''[1, 2]''],
        [''[1, 2]''])
   \<and> map_option (json_marshal L0) (json_unmarshal L0 ''[1, 2]'') = Some (Some ''[1,2]'')"
  by code_simp

text \<open>
  C5, as stated, fails: the response template \<open>[1, [[ .context.missing ]]]\<close> renders
  \<open>[1, <no value>]\<close>, which is not JSON, and these bytes are written to the client with
  the bare placeholder in them.
\<close>

theorem C5_counterexample:
  "ModifyResponseWithContext L0 bm5 cap0 [] [] (Some ctx0)
     = (Returned (),
        [HeaderSet ''Content-Length'' ''15'', WriteHeader 200, Write ''[1, <no value>]''],
        [''[1, [[ .context.missing ]]]''])
   \<and> Contains ''[1, <no value>]'' no_value"
  by code_simp

text \<open>
  C5, amended. When the status-matched response template parses and renders: output that
  does not decode as JSON is written as rendered; output that decodes as JSON, and still
  does after every occurrence of the quoted placeholder (found from the left) has been
  replaced by the empty JSON string, is written in that cleaned form; and output without
  the quoted placeholder is left as it is by the cleaning, bare placeholders included.
\<close>

theorem C5_response_cleaning:
  assumes tmpl: "map_of (templateResponse bm) (statusCode cap) = Some ts"
      and parse: "tmpl_parse L SimpleFuncMap ts = Some tm"
      and exec: "tmpl_execute L tm
                   (response_templateData (decode_or_nil L ob) (decode_or_nil L mb)
                      (decode_or_raw L (body cap)) ctx) = Some rendered"
  shows "(json_unmarshal L rendered = None \<longrightarrow>
            fst (snd (ModifyResponseWithContext L bm cap ob mb ctx))
              = [HeaderSet ''Content-Length'' (Itoa (length rendered)),
                 WriteHeader (statusCode cap), Write rendered])
         \<and> (json_unmarshal L rendered \<noteq> None
              \<and> json_unmarshal L (ReplaceAll rendered quoted_no_value empty_json_string) \<noteq> None
              \<longrightarrow>
            fst (snd (ModifyResponseWithContext L bm cap ob mb ctx))
              = write_json (statusCode cap)
                  (ReplaceAll rendered quoted_no_value empty_json_string))
         \<and> (\<not> Contains rendered quoted_no_value \<longrightarrow>
              ReplaceAll rendered quoted_no_value empty_json_string = rendered)"
proof -
  have ne: "templateResponse bm \<noteq> []" using tmpl by auto
  show ?thesis
    using ne tmpl parse exec
    by (auto simp: ModifyResponseWithContext_def Let_def ReplaceAll_absent
        simp del: ReplaceAll.simps split: option.splits)
qed

theorem C5_witness:
  "fst (snd (ModifyResponseWithContext L0 bm5q cap0 [] [] (Some ctx0)))
     = write_json 200 (''['' @ empty_json_string @ '']'')"
proof -
  have tmpl: "map_of (templateResponse bm5q) (statusCode cap0)
                = Some (''['' @ [CHR 0x22] @ ''[[ .context.missing ]]'' @ [CHR 0x22] @ '']'')"
    by (simp add: bm5q_def cap0_def NewBodyModifier_def)
  have parse: "tmpl_parse L0 SimpleFuncMap
                 (''['' @ [CHR 0x22] @ ''[[ .context.missing ]]'' @ [CHR 0x22] @ '']'')
               = Some [Text (''['' @ [CHR 0x22]), Field [''context'', ''missing''],
                       Text ([CHR 0x22] @ '']'')]"
    by code_simp
  have exec: "tmpl_execute L0 [Text (''['' @ [CHR 0x22]), Field [''context'', ''missing''],
                               Text ([CHR 0x22] @ '']'')]
                (response_templateData (decode_or_nil L0 []) (decode_or_nil L0 [])
                   (decode_or_raw L0 (body cap0)) (Some ctx0))
              = Some (''['' @ quoted_no_value @ '']'')"
    by code_simp
  have clean: "ReplaceAll (''['' @ quoted_no_value @ '']'') quoted_no_value empty_json_string
               = ''['' @ empty_json_string @ '']''"
    by code_simp
  have valid: "json_unmarshal L0 (''['' @ quoted_no_value @ '']'') \<noteq> None
               \<and> json_unmarshal L0 (''['' @ empty_json_string @ '']'') \<noteq> None"
    by code_simp
  have sc: "statusCode cap0 = 200" by (simp add: cap0_def)
  show ?thesis
    using C5_response_cleaning [OF tmpl parse exec] valid
    unfolding clean sc by blast
qed

section \<open>Header templates and the function library\<close>

text \<open>
  The compiled header templates do not depend on what the parser does with bound function
  names: \<^verbatim>\<open>NewHeaderModifier\<close> only ever parses with no function bound.
\<close>

lemma header_parse_step_no_funcs:
  "header_parse_step (L\<lparr>tmpl_parse := \<lambda>fs. tmpl_parse L []\<rparr>) = header_parse_step L"
  by (rule ext)+ (simp add: header_parse_step_def split: prod.splits)

lemma NewHeaderModifier_no_funcs:
  "NewHeaderModifier (L\<lparr>tmpl_parse := \<lambda>fs. tmpl_parse L []\<rparr>) config
     = NewHeaderModifier L config"
  by (simp add: NewHeaderModifier_def NewHeaderModifier_log_def header_parse_step_no_funcs)

text \<open>
  C9 says that every template, header templates included, can call the functions of
  \<^verbatim>\<open>SimpleFuncMap\<close>. \<^verbatim>\<open>NewHeaderModifier\<close> parses without \<^verbatim>\<open>Funcs\<close>: the header template
  \<open>[[ unixEpoch ]]\<close>, which parses where the function map is bound, does not parse there,
  is left out of the compiled templates, and \<^verbatim>\<open>ModifyHeaders\<close> writes nothing for it.
\<close>

theorem C9_header_templates_lack_function_library:
  "tmpl_parse L0 SimpleFuncMap ''[[ unixEpoch ]]'' = Some [Call ''unixEpoch'']
   \<and> NewHeaderModifier_log L0 [(''X-Request-Time'', ''[[ unixEpoch ]]'')]
       = (\<lparr>templates = [], templateStrings = []\<rparr>, [''[[ unixEpoch ]]''])
   \<and> ModifyHeaders L0 id (NewHeaderModifier L0 [(''X-Request-Time'', ''[[ unixEpoch ]]'')])
         req0 ctx0 = req0"
  by code_simp

section \<open>Request stage: a body that is not JSON\<close>









end
